theory Spec2Isabelle
  imports Main
begin

section \<open>Shared data: errors, streams and the event log\<close>

text \<open>
  The command helper (package \<open>commands\<close>) and the cluster-builder patch command are
  embedded as functions that pass an explicit world: the contents of every stream, which
  streams refuse a write, and a log of the calls made to collaborators, in order.
\<close>

record GroupVersionKind =
  Group :: string
  Version :: string
  Kind :: string

text \<open>\<open>reflect.TypeOf(obj)\<close>: the seven pointer types of the registry, and any other type by name.\<close>

datatype rtype =
    SecretPtr
  | ServiceAccountPtr
  | ImagePtr
  | BuilderPtr
  | ClusterStackPtr
  | ClusterStorePtr
  | ClusterBuilderPtr
  | OtherType string

text \<open>
  A \<open>runtime.Object\<close> as \<open>PrintObj\<close> sees it: its runtime type, the identity its
  \<open>GetObjectKind()\<close> reads and sets, and the rest of the object.
\<close>

record obj =
  typeOf :: rtype
  gvk :: GroupVersionKind
  body :: string

datatype error =
    UnknownType rtype
  | ArgCount nat nat
  | External string

text \<open>An \<open>io.Writer\<close>: a stream of the process, or \<open>ioutil.Discard\<close>.\<close>

datatype writer = Stream nat | Discard

datatype PatchType = MergePatchType

datatype event =
    EvWrite writer string
  | EvLookup rtype
  | EvSetGVK GroupVersionKind
  | EvPrintObject obj writer
  | EvGet string
  | EvPatch string PatchType string

record world =
  content :: "nat \<Rightarrow> string"
  broken :: "nat \<Rightarrow> error option"
  log :: "event list"

datatype 'a outcome = Return 'a | Panic

definition logEvent :: "event \<Rightarrow> world \<Rightarrow> world" where
  "logEvent e \<sigma> = \<sigma>\<lparr>log := log \<sigma> @ [e]\<rparr>"

text \<open>
  \<open>writer.Write(bytes)\<close>. \<open>ioutil.Discard\<close> accepts everything and keeps nothing. A stream
  either appends the bytes or, when it is broken, returns its error and keeps nothing.
\<close>

definition Write :: "writer \<Rightarrow> string \<Rightarrow> world \<Rightarrow> error option \<times> world" where
  "Write w s \<sigma> =
     (let \<sigma>1 = logEvent (EvWrite w s) \<sigma> in
      case w of
        Discard \<Rightarrow> (None, \<sigma>1)
      | Stream h \<Rightarrow>
          (case broken \<sigma>1 h of
             Some e \<Rightarrow> (Some e, \<sigma>1)
           | None \<Rightarrow> (None, \<sigma>1\<lparr>content := (content \<sigma>1)(h := content \<sigma>1 h @ s)\<rparr>)))"

definition newline :: string where
  "newline = [CHR 0x0A]"

section \<open>The command helper\<close>

text \<open>
  Modelled from the spec: \<open>k8s.ObjectPrinter\<close> is declared outside the files at hand. Its
  \<open>PrintObject(obj, w)\<close> serializes the object to the configured format and writes the
  text to \<open>w\<close>; a printer is taken as its serializer, which may fail.
\<close>

type_synonym ObjectPrinter = "obj \<Rightarrow> error + string"

definition PrintObject :: "ObjectPrinter \<Rightarrow> obj \<Rightarrow> writer \<Rightarrow> world \<Rightarrow> error option \<times> world" where
  "PrintObject p ob w \<sigma> =
     (let \<sigma>1 = logEvent (EvPrintObject ob w) \<sigma> in
      case p ob of
        Inl e \<Rightarrow> (Some e, \<sigma>1)
      | Inr s \<Rightarrow> Write w s \<sigma>1)"

record CommandHelper =
  dryRun :: bool
  "output" :: bool
  wait :: bool
  outWriter :: writer
  errWriter :: writer
  objPrinter :: "ObjectPrinter option"
  strBuilder :: string
  typeToGVK :: "rtype \<rightharpoonup> GroupVersionKind"

subsection \<open>Flags\<close>

text \<open>
  A flag of the command's flag set, by what the flag set answers about it: whether the
  user set it (\<open>Changed\<close>) and what \<open>GetBool\<close> and \<open>GetString\<close> return for it.
\<close>

record Flag =
  Changed :: bool
  GetBool :: "bool \<times> error option"
  GetString :: "string \<times> error option"

record Command =
  Flags :: "string \<rightharpoonup> Flag"
  OutOrStdout :: writer
  ErrOrStderr :: writer

definition getBoolFlag :: "string \<Rightarrow> Command \<Rightarrow> bool \<times> error option" where
  "getBoolFlag name cmd =
     (case Flags cmd name of
        None \<Rightarrow> (False, None)
      | Some flag \<Rightarrow>
          if \<not> Changed flag then (False, None)
          else (case GetBool flag of
                  (v, Some err) \<Rightarrow> (v, Some err)
                | (v, None) \<Rightarrow> (v, None)))"

definition getStringFlag :: "string \<Rightarrow> Command \<Rightarrow> string \<times> error option" where
  "getStringFlag name cmd =
     (case Flags cmd name of
        None \<Rightarrow> ('''', None)
      | Some flag \<Rightarrow>
          if \<not> Changed flag then ('''', None)
          else (case GetString flag of
                  (v, Some err) \<Rightarrow> (v, Some err)
                | (v, None) \<Rightarrow> (v, None)))"

subsection \<open>The type registry\<close>

text \<open>
  The group names and kind names that \<open>getTypeToGVKLookup\<close> reads from the API packages.
\<close>

record apiNames =
  v1GroupName :: string
  buildGroupName :: string
  BuilderKind :: string
  ClusterStackKind :: string
  ClusterStoreKind :: string
  ClusterBuilderKind :: string

definition WithKind :: "string \<times> string \<Rightarrow> string \<Rightarrow> GroupVersionKind" where
  "WithKind gv k = \<lparr>Group = fst gv, Version = snd gv, Kind = k\<rparr>"

definition getTypeToGVKLookup :: "apiNames \<Rightarrow> (rtype \<rightharpoonup> GroupVersionKind)" where
  "getTypeToGVKLookup api =
     (let v1GV = (v1GroupName api, ''v1'');
          buildGV = (buildGroupName api, ''v1alpha1'')
      in map_of
        [(SecretPtr, WithKind v1GV ''Secret''),
         (ServiceAccountPtr, WithKind v1GV ''ServiceAccount''),
         (ImagePtr, WithKind buildGV ''Image''),
         (BuilderPtr, WithKind buildGV (BuilderKind api)),
         (ClusterStackPtr, WithKind buildGV (ClusterStackKind api)),
         (ClusterStorePtr, WithKind buildGV (ClusterStoreKind api)),
         (ClusterBuilderPtr, WithKind buildGV (ClusterBuilderKind api))])"

subsection \<open>Construction\<close>

definition NewCommandHelper ::
  "apiNames \<Rightarrow> (string \<Rightarrow> error + ObjectPrinter) \<Rightarrow> Command \<Rightarrow> error + CommandHelper" where
  "NewCommandHelper api NewObjectPrinter cmd =
     (case getBoolFlag ''dry-run'' cmd of
        (_, Some err) \<Rightarrow> Inl err
      | (dryRunV, None) \<Rightarrow>
     (case getStringFlag ''output'' cmd of
        (_, Some err) \<Rightarrow> Inl err
      | (outputV, None) \<Rightarrow>
     (case getBoolFlag ''wait'' cmd of
        (_, Some err) \<Rightarrow> Inl err
      | (waitV, None) \<Rightarrow>
     (let outputResource = (length outputV > 0) in
      case (if outputResource
            then (case NewObjectPrinter outputV of
                    Inl err \<Rightarrow> Inl err
                  | Inr p \<Rightarrow> Inr (Some p))
            else Inr None) of
        Inl err \<Rightarrow> Inl err
      | Inr printer \<Rightarrow>
          Inr \<lparr>dryRun = dryRunV,
               output = outputResource,
               wait = waitV,
               outWriter = OutOrStdout cmd,
               errWriter = ErrOrStderr cmd,
               objPrinter = printer,
               strBuilder = '''',
               typeToGVK = getTypeToGVKLookup api\<rparr>))))"

subsection \<open>Modes\<close>

definition IsDryRun :: "CommandHelper \<Rightarrow> bool" where
  "IsDryRun ch = dryRun ch"

definition ShouldWait :: "CommandHelper \<Rightarrow> bool" where
  "ShouldWait ch = (wait ch \<and> \<not> dryRun ch \<and> \<not> output ch)"

subsection \<open>Streams\<close>

definition OutOrErrWriter :: "CommandHelper \<Rightarrow> writer" where
  "OutOrErrWriter ch = (if output ch then errWriter ch else outWriter ch)"

definition OutOrDiscardWriter :: "CommandHelper \<Rightarrow> writer" where
  "OutOrDiscardWriter ch = (if output ch then Discard else outWriter ch)"

definition Writer :: "CommandHelper \<Rightarrow> writer" where
  "Writer ch = OutOrErrWriter ch"

subsection \<open>Printing objects\<close>

text \<open>
  Lines 106 to 108 of \<open>PrintObj\<close>: print, write the identity read on entry back, return the
  printer's error. A nil printer panics at the call, before the identity is written back.
\<close>

definition printAndRestore ::
  "CommandHelper \<Rightarrow> GroupVersionKind \<Rightarrow> obj \<Rightarrow> world \<Rightarrow> error option outcome \<times> obj \<times> world" where
  "printAndRestore ch oGVK ob \<sigma> =
     (case objPrinter ch of
        None \<Rightarrow> (Panic, ob, \<sigma>)
      | Some p \<Rightarrow>
          (let (err, \<sigma>1) = PrintObject p ob (outWriter ch) \<sigma> in
           (Return err, ob\<lparr>gvk := oGVK\<rparr>, logEvent (EvSetGVK oGVK) \<sigma>1)))"

definition PrintObj ::
  "CommandHelper \<Rightarrow> obj \<Rightarrow> world \<Rightarrow> error option outcome \<times> obj \<times> world" where
  "PrintObj ch ob \<sigma> =
     (if \<not> output ch then (Return None, ob, \<sigma>)
      else
        (let oGVK = gvk ob in
         if Version oGVK = '''' \<or> Kind oGVK = '''' then
           (let \<sigma>1 = logEvent (EvLookup (typeOf ob)) \<sigma> in
            case typeToGVK ch (typeOf ob) of
              None \<Rightarrow> (Return (Some (UnknownType (typeOf ob))), ob, \<sigma>1)
            | Some nGVK \<Rightarrow>
                printAndRestore ch oGVK (ob\<lparr>gvk := nGVK\<rparr>) (logEvent (EvSetGVK nGVK) \<sigma>1))
         else printAndRestore ch oGVK ob \<sigma>))"

subsection \<open>Printing text\<close>

text \<open>\<open>strings.Builder\<close>: \<open>Reset\<close> empties it, \<open>WriteString\<close> appends and never fails.\<close>

definition Reset :: "string \<Rightarrow> string" where
  "Reset b = ''''"

definition WriteString :: "string \<Rightarrow> string \<Rightarrow> error option \<times> string" where
  "WriteString b s = (None, b @ s)"

text \<open>
  \<open>fmt.Sprintf\<close> is a parameter. The receiver is a copy, so the builder the caller holds
  stays as it was.
\<close>

definition printDryRun ::
  "(string \<Rightarrow> 'v list \<Rightarrow> string) \<Rightarrow> CommandHelper \<Rightarrow> writer \<Rightarrow> string \<Rightarrow> 'v list \<Rightarrow> world
     \<Rightarrow> error option \<times> world" where
  "printDryRun Sprintf ch w format a \<sigma> =
     (let b0 = Reset (strBuilder ch);
          str = Sprintf format a
      in case WriteString b0 str of
           (Some err, _) \<Rightarrow> (Some err, \<sigma>)
         | (None, b1) \<Rightarrow>
             (case (if dryRun ch then WriteString b1 '' (dry run)'' else (None, b1)) of
                (Some err, _) \<Rightarrow> (Some err, \<sigma>)
              | (None, b2) \<Rightarrow>
                  (let (_, b3) = WriteString b2 newline in Write w b3 \<sigma>)))"

definition PrintResult ::
  "(string \<Rightarrow> 'v list \<Rightarrow> string) \<Rightarrow> CommandHelper \<Rightarrow> string \<Rightarrow> 'v list \<Rightarrow> world
     \<Rightarrow> error option \<times> world" where
  "PrintResult Sprintf ch format args = printDryRun Sprintf ch (OutOrDiscardWriter ch) format args"

definition PrintStatus ::
  "(string \<Rightarrow> 'v list \<Rightarrow> string) \<Rightarrow> CommandHelper \<Rightarrow> string \<Rightarrow> 'v list \<Rightarrow> world
     \<Rightarrow> error option \<times> world" where
  "PrintStatus Sprintf ch format args = printDryRun Sprintf ch (OutOrErrWriter ch) format args"

definition Printlnf ::
  "(string \<Rightarrow> 'v list \<Rightarrow> string) \<Rightarrow> CommandHelper \<Rightarrow> string \<Rightarrow> 'v list \<Rightarrow> world
     \<Rightarrow> error option \<times> world" where
  "Printlnf Sprintf ch format args \<sigma> =
     Write (OutOrErrWriter ch) (Sprintf (format @ newline) args) \<sigma>"

section \<open>The cluster-builder patch command\<close>

text \<open>
  A cluster builder, as far as the command reads and assigns it: the fields it names, and
  the rest of each struct kept whole.
\<close>

record ObjectReference =
  Name :: string
  refRest :: string

record BuildpackRef =
  bpId :: string
  bpVersion :: string
  bpOptional :: bool

type_synonym OrderEntry = "BuildpackRef list"

record ClusterBuilderSpec =
  Tag :: string
  Stack :: ObjectReference
  Store :: ObjectReference
  Order :: "OrderEntry list"
  specRest :: string

record ClusterBuilder =
  TypeMeta :: GroupVersionKind
  ObjectMeta_Name :: string
  ObjectMeta_rest :: string
  Spec :: ClusterBuilderSpec
  Status :: string

text \<open>
  The command holds pointers: \<open>ccb\<close> to the object read from the cluster, \<open>patchedCcb\<close> to
  its copy. The heap is the list of the objects allocated so far, a pointer an index into
  it. \<open>DeepCopy\<close> allocates a new object with the fields of the old one.
\<close>

type_synonym heap = "ClusterBuilder list"

definition DeepCopy :: "nat \<Rightarrow> heap \<Rightarrow> nat \<times> heap" where
  "DeepCopy p h = (length h, h @ [h ! p])"

definition set_Spec_Stack_Name :: "string \<Rightarrow> ClusterBuilder \<Rightarrow> ClusterBuilder" where
  "set_Spec_Stack_Name v cb = cb\<lparr>Spec := (Spec cb)\<lparr>Stack := (Stack (Spec cb))\<lparr>Name := v\<rparr>\<rparr>\<rparr>"

definition set_Spec_Store_Name :: "string \<Rightarrow> ClusterBuilder \<Rightarrow> ClusterBuilder" where
  "set_Spec_Store_Name v cb = cb\<lparr>Spec := (Spec cb)\<lparr>Store := (Store (Spec cb))\<lparr>Name := v\<rparr>\<rparr>\<rparr>"

definition set_Spec_Order :: "OrderEntry list \<Rightarrow> ClusterBuilder \<Rightarrow> ClusterBuilder" where
  "set_Spec_Order v cb = cb\<lparr>Spec := (Spec cb)\<lparr>Order := v\<rparr>\<rparr>"

text \<open>
  The collaborators of the command, by what they answer: the client set provider, the
  remote \<open>Get\<close> and \<open>Patch\<close>, \<open>builder.ReadOrder\<close> and \<open>k8s.CreatePatch\<close>.
\<close>

record PatchEnv =
  GetClientSet :: "error option"
  Get :: "string \<Rightarrow> error + ClusterBuilder"
  ReadOrder :: "string \<Rightarrow> error + OrderEntry list"
  CreatePatch :: "ClusterBuilder \<Rightarrow> ClusterBuilder \<Rightarrow> error + string"
  Patch :: "string \<Rightarrow> PatchType \<Rightarrow> string \<Rightarrow> error option"

text \<open>
  Lines 42 to 59 of \<open>RunE\<close>: copy the object read, then assign the fields whose flag is not
  empty. The result is the error of \<open>ReadOrder\<close> if any, the pointer to the copy and the heap.
\<close>

definition patchedCopy ::
  "(string \<Rightarrow> error + OrderEntry list) \<Rightarrow> string \<Rightarrow> string \<Rightarrow> string \<Rightarrow> nat \<Rightarrow> heap
     \<Rightarrow> error option \<times> nat \<times> heap" where
  "patchedCopy readOrder stack store order ccb h =
     (let (patchedCcb, h1) = DeepCopy ccb h;
          h2 = (if stack \<noteq> '''' then h1[patchedCcb := set_Spec_Stack_Name stack (h1 ! patchedCcb)]
                else h1);
          h3 = (if store \<noteq> '''' then h2[patchedCcb := set_Spec_Store_Name store (h2 ! patchedCcb)]
                else h2)
      in if order \<noteq> '''' then
           (case readOrder order of
              Inl err \<Rightarrow> (Some err, patchedCcb, h3)
            | Inr orderEntries \<Rightarrow>
                (None, patchedCcb, h3[patchedCcb := set_Spec_Order orderEntries (h3 ! patchedCcb)]))
         else (None, patchedCcb, h3))"

definition quote :: string where
  "quote = [CHR 0x22]"

text \<open>
  \<open>RunE\<close>. The object that \<open>Get\<close> returns is allocated at the end of the heap. Every remote
  call is logged before its answer is read.
\<close>

definition RunE ::
  "PatchEnv \<Rightarrow> string \<Rightarrow> string \<Rightarrow> string \<Rightarrow> Command \<Rightarrow> string list \<Rightarrow> heap \<Rightarrow> world
     \<Rightarrow> error option \<times> heap \<times> world" where
  "RunE env stack store order cmd args h \<sigma> =
     (case GetClientSet env of
        Some err \<Rightarrow> (Some err, h, \<sigma>)
      | None \<Rightarrow>
          (let \<sigma>1 = logEvent (EvGet (args ! 0)) \<sigma> in
           case Get env (args ! 0) of
             Inl err \<Rightarrow> (Some err, h, \<sigma>1)
           | Inr fetched \<Rightarrow>
               (let ccb = length h;
                    h0 = h @ [fetched] in
                case patchedCopy (ReadOrder env) stack store order ccb h0 of
                  (Some err, patchedCcb, h1) \<Rightarrow> (Some err, h1, \<sigma>1)
                | (None, patchedCcb, h1) \<Rightarrow>
                    (case CreatePatch env (h1 ! ccb) (h1 ! patchedCcb) of
                       Inl err \<Rightarrow> (Some err, h1, \<sigma>1)
                     | Inr patch \<Rightarrow>
                         if length patch = 0 then
                           (let (err, \<sigma>2) =
                                  Write (OutOrStdout cmd) (''nothing to patch'' @ newline) \<sigma>1
                            in (err, h1, \<sigma>2))
                         else
                           (let \<sigma>2 = logEvent (EvPatch (args ! 0) MergePatchType patch) \<sigma>1 in
                            case Patch env (args ! 0) MergePatchType patch of
                              Some err \<Rightarrow> (Some err, h1, \<sigma>2)
                            | None \<Rightarrow>
                                (let (err, \<sigma>3) =
                                       Write (OutOrStdout cmd)
                                         (quote @ ObjectMeta_Name (h1 ! ccb) @ quote
                                            @ '' patched'' @ newline) \<sigma>2
                                 in (err, h1, \<sigma>3)))))))"

text \<open>\<open>Args: cobra.ExactArgs(1)\<close> is checked before \<open>RunE\<close> runs, so \<open>args[0]\<close> exists there.\<close>

definition ExactArgs :: "nat \<Rightarrow> string list \<Rightarrow> error option" where
  "ExactArgs n args = (if length args \<noteq> n then Some (ArgCount n (length args)) else None)"

definition patchCommand ::
  "PatchEnv \<Rightarrow> string \<Rightarrow> string \<Rightarrow> string \<Rightarrow> Command \<Rightarrow> string list \<Rightarrow> heap \<Rightarrow> world
     \<Rightarrow> error option \<times> heap \<times> world" where
  "patchCommand env stack store order cmd args h \<sigma> =
     (case ExactArgs 1 args of
        Some err \<Rightarrow> (Some err, h, \<sigma>)
      | None \<Rightarrow> RunE env stack store order cmd args h \<sigma>)"

section \<open>Auxiliary definitions for the statements\<close>

text \<open>The events that lines 106 to 108 of \<open>PrintObj\<close> add to the log, and those of the whole call.\<close>

definition printAndRestore_events :: "CommandHelper \<Rightarrow> GroupVersionKind \<Rightarrow> obj \<Rightarrow> event list" where
  "printAndRestore_events ch g ob =
     (case objPrinter ch of
        None \<Rightarrow> []
      | Some p \<Rightarrow>
          EvPrintObject ob (outWriter ch)
            # (case p ob of Inl e \<Rightarrow> [] | Inr s \<Rightarrow> [EvWrite (outWriter ch) s]) @ [EvSetGVK g])"

definition PrintObj_events :: "CommandHelper \<Rightarrow> obj \<Rightarrow> event list" where
  "PrintObj_events ch ob =
     (if \<not> output ch then []
      else if Version (gvk ob) = '''' \<or> Kind (gvk ob) = '''' then
        EvLookup (typeOf ob)
          # (case typeToGVK ch (typeOf ob) of
               None \<Rightarrow> []
             | Some n \<Rightarrow> EvSetGVK n # printAndRestore_events ch (gvk ob) (ob\<lparr>gvk := n\<rparr>))
      else printAndRestore_events ch (gvk ob) ob)"

text \<open>Events that write the identity, and events that look a type up.\<close>

fun isSetGVK :: "event \<Rightarrow> bool" where
  "isSetGVK (EvSetGVK g) = True"
| "isSetGVK e = False"


text \<open>
  The two early returns of \<open>getBoolFlag\<close> and \<open>getStringFlag\<close>: the flag set does not know
  the name, or the user did not set the flag.
\<close>

definition notSet :: "Command \<Rightarrow> string \<Rightarrow> bool" where
  "notSet cmd name = (case Flags cmd name of None \<Rightarrow> True | Some flag \<Rightarrow> \<not> Changed flag)"

text \<open>The object read, with the three fields as the flags ask.\<close>

definition patchedValue ::
  "(string \<Rightarrow> error + OrderEntry list) \<Rightarrow> string \<Rightarrow> string \<Rightarrow> string \<Rightarrow> ClusterBuilder
     \<Rightarrow> ClusterBuilder" where
  "patchedValue readOrder stack store order cb =
     cb\<lparr>Spec := (Spec cb)
        \<lparr>Stack := (Stack (Spec cb))\<lparr>Name := (if stack \<noteq> '''' then stack else Name (Stack (Spec cb)))\<rparr>,
         Store := (Store (Spec cb))\<lparr>Name := (if store \<noteq> '''' then store else Name (Store (Spec cb)))\<rparr>,
         Order := (if order \<noteq> '''' then (case readOrder order of Inl e \<Rightarrow> Order (Spec cb) | Inr oe \<Rightarrow> oe)
                   else Order (Spec cb))\<rparr>\<rparr>"

section \<open>Concrete inputs\<close>

definition exampleApi :: apiNames where
  "exampleApi =
     \<lparr>v1GroupName = '''', buildGroupName = ''build.pivotal.io'', BuilderKind = ''Builder'',
      ClusterStackKind = ''ClusterStack'', ClusterStoreKind = ''ClusterStore'',
      ClusterBuilderKind = ''ClusterBuilder''\<rparr>"

definition examplePrinter :: ObjectPrinter where
  "examplePrinter ob =
     (if Kind (gvk ob) = '''' then Inl (External ''missing apiVersion or kind'')
      else Inr (''kind: '' @ Kind (gvk ob) @ newline))"

definition exampleWorld :: world where
  "exampleWorld = \<lparr>content = (\<lambda>n. ''''), broken = (\<lambda>n. None), log = []\<rparr>"

definition brokenWorld :: world where
  "brokenWorld =
     \<lparr>content = (\<lambda>n. ''''),
      broken = (\<lambda>n. if n = 1 then Some (External ''broken pipe'') else None),
      log = []\<rparr>"

definition outputHelper :: CommandHelper where
  "outputHelper =
     \<lparr>dryRun = False, output = True, wait = True, outWriter = Stream 1, errWriter = Stream 2,
      objPrinter = Some examplePrinter, strBuilder = '''',
      typeToGVK = getTypeToGVKLookup exampleApi\<rparr>"

definition narrativeHelper :: CommandHelper where
  "narrativeHelper =
     \<lparr>dryRun = True, output = False, wait = True, outWriter = Stream 1, errWriter = Stream 2,
      objPrinter = None, strBuilder = ''left over'',
      typeToGVK = getTypeToGVKLookup exampleApi\<rparr>"

definition fullImage :: obj where
  "fullImage =
     \<lparr>typeOf = ImagePtr,
      gvk = \<lparr>Group = ''build.pivotal.io'', Version = ''v1alpha1'', Kind = ''Image''\<rparr>,
      body = ''my-image''\<rparr>"


definition bareImage :: obj where
  "bareImage =
     \<lparr>typeOf = ImagePtr, gvk = \<lparr>Group = '''', Version = '''', Kind = ''''\<rparr>, body = ''my-image''\<rparr>"

definition barePod :: obj where
  "barePod =
     \<lparr>typeOf = OtherType ''*v1.Pod'', gvk = \<lparr>Group = '''', Version = '''', Kind = ''''\<rparr>,
      body = ''my-pod''\<rparr>"

definition exampleCommand :: Command where
  "exampleCommand =
     \<lparr>Flags = [''wait'' \<mapsto> \<lparr>Changed = False, GetBool = (True, None),
                              GetString = ('''', Some (External ''not a string''))\<rparr>],
      OutOrStdout = Stream 1, ErrOrStderr = Stream 2\<rparr>"

definition exampleBuilder :: ClusterBuilder where
  "exampleBuilder =
     \<lparr>TypeMeta = \<lparr>Group = ''build.pivotal.io'', Version = ''v1alpha1'', Kind = ''ClusterBuilder''\<rparr>,
      ObjectMeta_Name = ''my-builder'',
      ObjectMeta_rest = ''generation 3'',
      Spec = \<lparr>Tag = ''registry.io/builder'',
              Stack = \<lparr>Name = ''old-stack'', refRest = ''ClusterStack''\<rparr>,
              Store = \<lparr>Name = ''old-store'', refRest = ''ClusterStore''\<rparr>,
              Order = [[\<lparr>bpId = ''org.nodejs'', bpVersion = ''1'', bpOptional = False\<rparr>]],
              specRest = ''service account''\<rparr>,
      Status = ''ready''\<rparr>"

definition exampleOrder :: "OrderEntry list" where
  "exampleOrder = [[\<lparr>bpId = ''org.java'', bpVersion = ''2'', bpOptional = True\<rparr>]]"

definition exampleEnv :: PatchEnv where
  "exampleEnv =
     \<lparr>GetClientSet = None,
      Get = (\<lambda>name. Inr exampleBuilder),
      ReadOrder = (\<lambda>path. if path = ''order.yaml'' then Inr exampleOrder
                            else Inl (External ''no such file'')),
      CreatePatch = (\<lambda>a b. if a = b then Inr '''' else Inr ''{spec}''),
      Patch = (\<lambda>name t patch. None)\<rparr>"

section \<open>Facts about writing and printing\<close>

lemma logEvent_simps:
  "log (logEvent e \<sigma>) = log \<sigma> @ [e]"
  "broken (logEvent e \<sigma>) = broken \<sigma>"
  "content (logEvent e \<sigma>) = content \<sigma>"
  by (simp_all add: logEvent_def)

lemma Write_log: "log (snd (Write w s \<sigma>)) = log \<sigma> @ [EvWrite w s]"
  by (simp add: Write_def logEvent_def Let_def split: writer.split option.split)

lemma Write_Discard: "Write Discard s \<sigma> = (None, \<sigma>\<lparr>log := log \<sigma> @ [EvWrite Discard s]\<rparr>)"
  by (simp add: Write_def logEvent_def)

lemma Write_ok:
  "(fst (Write w s \<sigma>) = None) = (\<forall>n. w = Stream n \<longrightarrow> broken \<sigma> n = None)"
  by (cases w) (auto simp add: Write_def logEvent_def Let_def split: option.split)

lemma Write_content:
  "broken \<sigma> n = None \<Longrightarrow> content (snd (Write (Stream n) s \<sigma>)) n = content \<sigma> n @ s"
  by (simp add: Write_def logEvent_def Let_def)

lemma printDryRun_eq:
  "printDryRun Sprintf ch w format a \<sigma> =
     Write w (Sprintf format a @ (if dryRun ch then '' (dry run)'' else '''') @ newline) \<sigma>"
  by (simp add: printDryRun_def Reset_def WriteString_def)

lemma PrintObject_log:
  "log (snd (PrintObject p ob w \<sigma>)) =
     log \<sigma> @ EvPrintObject ob w # (case p ob of Inl e \<Rightarrow> [] | Inr s \<Rightarrow> [EvWrite w s])"
  by (simp add: PrintObject_def Let_def Write_log logEvent_def split: sum.split)

lemma printAndRestore_Some:
  "objPrinter ch = Some p \<Longrightarrow>
   printAndRestore ch g ob \<sigma> =
     (Return (fst (PrintObject p ob (outWriter ch) \<sigma>)), ob\<lparr>gvk := g\<rparr>,
      logEvent (EvSetGVK g) (snd (PrintObject p ob (outWriter ch) \<sigma>)))"
  by (simp add: printAndRestore_def split: prod.split)

lemma printAndRestore_log:
  "log (snd (snd (printAndRestore ch g ob \<sigma>))) = log \<sigma> @ printAndRestore_events ch g ob"
proof (cases "objPrinter ch")
  case None
  then show ?thesis by (simp add: printAndRestore_def printAndRestore_events_def)
next
  case (Some p)
  then show ?thesis
    by (simp add: printAndRestore_Some printAndRestore_events_def logEvent_def PrintObject_log)
qed

lemma PrintObj_log:
  "log (snd (snd (PrintObj ch ob \<sigma>))) = log \<sigma> @ PrintObj_events ch ob"
  by (simp add: PrintObj_def PrintObj_events_def Let_def printAndRestore_log logEvent_def
      split: option.split)

lemma no_lookup_in_tail: "EvLookup t \<notin> set (printAndRestore_events ch g ob)"
  by (simp add: printAndRestore_events_def split: option.split sum.split)

lemma set_gvk_in_tail:
  "EvSetGVK g' \<in> set (printAndRestore_events ch g ob) \<Longrightarrow> g' = g"
  by (simp add: printAndRestore_events_def split: option.splits sum.splits)

lemma PrintObj_returns:
  assumes "output ch \<longrightarrow> objPrinter ch \<noteq> None"
  shows "\<exists>err. fst (PrintObj ch ob \<sigma>) = Return err"
  using assms
  by (auto simp add: PrintObj_def Let_def printAndRestore_Some split: option.split)

lemma PrintObj_object:
  assumes "output ch \<longrightarrow> objPrinter ch \<noteq> None"
  shows "fst (snd (PrintObj ch ob \<sigma>)) = ob"
  using assms
  by (auto simp add: PrintObj_def Let_def printAndRestore_Some split: option.split)

text \<open>The result of \<open>PrintObj\<close>, path by path.\<close>

lemma PrintObj_not_output: "\<not> output ch \<Longrightarrow> PrintObj ch ob \<sigma> = (Return None, ob, \<sigma>)"
  by (simp add: PrintObj_def)

lemma PrintObj_as_is:
  assumes "output ch" and "Version (gvk ob) \<noteq> ''''" and "Kind (gvk ob) \<noteq> ''''"
    and "objPrinter ch = Some p"
  shows "PrintObj ch ob \<sigma> =
           (Return (fst (PrintObject p ob (outWriter ch) \<sigma>)), ob,
            logEvent (EvSetGVK (gvk ob)) (snd (PrintObject p ob (outWriter ch) \<sigma>)))"
  using assms by (simp add: PrintObj_def printAndRestore_Some)


lemma PrintObj_stamped:
  assumes "output ch" and "Version (gvk ob) = '''' \<or> Kind (gvk ob) = ''''"
    and "typeToGVK ch (typeOf ob) = Some n" and "objPrinter ch = Some p"
  shows "PrintObj ch ob \<sigma> =
           (Return (fst (PrintObject p (ob\<lparr>gvk := n\<rparr>) (outWriter ch)
                      (logEvent (EvSetGVK n) (logEvent (EvLookup (typeOf ob)) \<sigma>)))),
            ob,
            logEvent (EvSetGVK (gvk ob))
              (snd (PrintObject p (ob\<lparr>gvk := n\<rparr>) (outWriter ch)
                      (logEvent (EvSetGVK n) (logEvent (EvLookup (typeOf ob)) \<sigma>)))))"
  using assms by (auto simp add: PrintObj_def printAndRestore_Some Let_def)

lemma PrintObj_unknown:
  assumes "output ch" and "Version (gvk ob) = '''' \<or> Kind (gvk ob) = ''''"
    and "typeToGVK ch (typeOf ob) = None"
  shows "PrintObj ch ob \<sigma> =
           (Return (Some (UnknownType (typeOf ob))), ob, logEvent (EvLookup (typeOf ob)) \<sigma>)"
  using assms by (auto simp add: PrintObj_def)

lemma events_as_is:
  assumes "output ch" and "Version (gvk ob) \<noteq> ''''" and "Kind (gvk ob) \<noteq> ''''"
    and "objPrinter ch = Some p"
  shows "PrintObj_events ch ob =
           EvPrintObject ob (outWriter ch)
             # (case p ob of Inl e \<Rightarrow> [] | Inr s \<Rightarrow> [EvWrite (outWriter ch) s])
             @ [EvSetGVK (gvk ob)]"
  using assms by (simp add: PrintObj_events_def printAndRestore_events_def)

lemma events_as_is_writes:
  assumes "output ch" and "Version (gvk ob) \<noteq> ''''" and "Kind (gvk ob) \<noteq> ''''"
    and "objPrinter ch = Some p"
  shows "filter isSetGVK (PrintObj_events ch ob) = [EvSetGVK (gvk ob)]"
  using assms by (simp add: events_as_is split: sum.split)

lemma events_stamped:
  assumes "output ch" and "Version (gvk ob) = '''' \<or> Kind (gvk ob) = ''''"
    and "typeToGVK ch (typeOf ob) = Some n" and "objPrinter ch = Some p"
  shows "PrintObj_events ch ob =
              [EvLookup (typeOf ob), EvSetGVK n, EvPrintObject (ob\<lparr>gvk := n\<rparr>) (outWriter ch)]
              @ (case p (ob\<lparr>gvk := n\<rparr>) of Inl e \<Rightarrow> [] | Inr s \<Rightarrow> [EvWrite (outWriter ch) s])
              @ [EvSetGVK (gvk ob)]"
  using assms by (auto simp add: PrintObj_events_def printAndRestore_events_def)

lemma events_not_output: "\<not> output ch \<Longrightarrow> PrintObj_events ch ob = []"
  by (simp add: PrintObj_events_def)



section \<open>Facts about construction\<close>

lemma notSet_bool: "notSet cmd name \<Longrightarrow> getBoolFlag name cmd = (False, None)"
  by (simp add: notSet_def getBoolFlag_def split: option.splits)

lemma notSet_string: "notSet cmd name \<Longrightarrow> getStringFlag name cmd = ('''', None)"
  by (simp add: notSet_def getStringFlag_def split: option.splits)

text \<open>
  A helper that \<open>NewCommandHelper\<close> returns holds what the three flags resolve to, and holds
  a printer whenever output mode is on.
\<close>

lemma NewCommandHelper_fields:
  assumes "NewCommandHelper api np cmd = Inr ch"
  shows "dryRun ch = fst (getBoolFlag ''dry-run'' cmd)
       \<and> output ch = (fst (getStringFlag ''output'' cmd) \<noteq> '''')
       \<and> wait ch = fst (getBoolFlag ''wait'' cmd)
       \<and> (output ch \<longrightarrow> objPrinter ch \<noteq> None)"
  using assms
  by (auto simp add: NewCommandHelper_def Let_def
      split: prod.splits option.splits sum.splits if_splits)

section \<open>Facts about the patch command\<close>

lemma patchedCopy_eq:
  "patchedCopy readOrder stack store order ccb h =
     ((if order \<noteq> '''' then (case readOrder order of Inl e \<Rightarrow> Some e | Inr oe \<Rightarrow> None) else None),
      length h, h @ [patchedValue readOrder stack store order (h ! ccb)])"
  by (simp add: patchedCopy_def DeepCopy_def patchedValue_def set_Spec_Stack_Name_def
      set_Spec_Store_Name_def set_Spec_Order_def split: sum.split)

lemma RunE_nothing:
  assumes "GetClientSet env = None"
    and "Get env name = Inr fetched"
    and "patchedCopy (ReadOrder env) stack store order (length h) (h @ [fetched])
           = (None, patchedCcb, hp)"
    and "CreatePatch env (hp ! length h) (hp ! patchedCcb) = Inr patch"
    and "length patch = 0"
  shows "RunE env stack store order cmd [name] h \<sigma> =
           (fst (Write (OutOrStdout cmd) (''nothing to patch'' @ newline) (logEvent (EvGet name) \<sigma>)),
            hp,
            snd (Write (OutOrStdout cmd) (''nothing to patch'' @ newline) (logEvent (EvGet name) \<sigma>)))"
  using assms by (simp add: RunE_def Let_def split: prod.split)

text \<open>
  The heap after the command, once \<open>Get\<close> has answered: the heap before, the object read,
  and its copy with the three fields as the flags ask.
\<close>

lemma RunE_heap:
  assumes "GetClientSet env = None" and "Get env name = Inr fetched"
  shows "fst (snd (RunE env stack store order cmd [name] h \<sigma>)) =
           h @ [fetched, patchedValue (ReadOrder env) stack store order fetched]"
  using assms
  by (simp add: RunE_def Let_def patchedCopy_eq split: sum.split option.split prod.split)

section \<open>The execution mode\<close>

text \<open>
  C1. \<open>ShouldWait\<close> is true if and only if wait is set, dry-run is not, and no output
  format was requested; the eight combinations of the three modes are listed one by one.
\<close>

theorem ShouldWait_iff:
  "ShouldWait ch = (wait ch \<and> \<not> dryRun ch \<and> \<not> output ch)
   \<and> map (\<lambda>(d, w, r). ShouldWait (ch\<lparr>dryRun := d, wait := w, output := r\<rparr>))
       [(False, False, False), (False, False, True), (False, True, False), (False, True, True),
        (True, False, False), (True, False, True), (True, True, False), (True, True, True)]
     = [False, False, True, False, False, False, False, False]"
  by (simp add: ShouldWait_def)

section \<open>Flag resolution\<close>

text \<open>
  C8. A flag that the command does not define, or that is defined and was not set by the
  user, resolves to its zero value with no error: \<open>false\<close> from \<open>getBoolFlag\<close>, the empty
  string from \<open>getStringFlag\<close>. For dry-run, output and wait the helper under construction
  gets that zero value, and with all three unset the construction succeeds with all three
  modes off.
\<close>

theorem flags_resolve_to_zero:
  "(notSet cmd name \<longrightarrow>
      getBoolFlag name cmd = (False, None) \<and> getStringFlag name cmd = ('''', None))
   \<and> (notSet cmd name)
       = (Flags cmd name = None \<or> (\<exists>flag. Flags cmd name = Some flag \<and> \<not> Changed flag))
   \<and> (NewCommandHelper api np cmd = Inr ch \<longrightarrow>
        (notSet cmd ''dry-run'' \<longrightarrow> \<not> dryRun ch)
      \<and> (notSet cmd ''output'' \<longrightarrow> \<not> output ch)
      \<and> (notSet cmd ''wait'' \<longrightarrow> \<not> wait ch))
   \<and> (notSet cmd ''dry-run'' \<and> notSet cmd ''output'' \<and> notSet cmd ''wait'' \<longrightarrow>
        NewCommandHelper api np cmd =
          Inr \<lparr>dryRun = False, output = False, wait = False,
               outWriter = OutOrStdout cmd, errWriter = ErrOrStderr cmd,
               objPrinter = None, strBuilder = '''',
               typeToGVK = getTypeToGVKLookup api\<rparr>)"
proof -
  have a: "notSet cmd name \<longrightarrow>
      getBoolFlag name cmd = (False, None) \<and> getStringFlag name cmd = ('''', None)"
    by (simp add: notSet_bool notSet_string)
  have b: "(notSet cmd name)
       = (Flags cmd name = None \<or> (\<exists>flag. Flags cmd name = Some flag \<and> \<not> Changed flag))"
    by (simp add: notSet_def split: option.splits)
  have c: "NewCommandHelper api np cmd = Inr ch \<longrightarrow>
        (notSet cmd ''dry-run'' \<longrightarrow> \<not> dryRun ch)
      \<and> (notSet cmd ''output'' \<longrightarrow> \<not> output ch)
      \<and> (notSet cmd ''wait'' \<longrightarrow> \<not> wait ch)"
    using NewCommandHelper_fields [of api np cmd ch]
    by (auto simp add: notSet_bool notSet_string)
  have d: "notSet cmd ''dry-run'' \<and> notSet cmd ''output'' \<and> notSet cmd ''wait'' \<longrightarrow>
        NewCommandHelper api np cmd =
          Inr \<lparr>dryRun = False, output = False, wait = False,
               outWriter = OutOrStdout cmd, errWriter = ErrOrStderr cmd,
               objPrinter = None, strBuilder = '''',
               typeToGVK = getTypeToGVKLookup api\<rparr>"
    by (simp add: NewCommandHelper_def notSet_bool notSet_string)
  from a b c d show ?thesis by blast
qed

text \<open>
  On a command that defines only \<open>wait\<close> and leaves it unset: \<open>dry-run\<close> is not defined,
  \<open>wait\<close> is defined with a value that is never read.
\<close>

theorem flags_resolve_to_zero_witness:
  "Flags exampleCommand ''dry-run'' = None
   \<and> Flags exampleCommand ''wait''
       = Some \<lparr>Changed = False, GetBool = (True, None),
                GetString = ('''', Some (External ''not a string''))\<rparr>
   \<and> getBoolFlag ''dry-run'' exampleCommand = (False, None)
   \<and> getStringFlag ''dry-run'' exampleCommand = ('''', None)
   \<and> getBoolFlag ''wait'' exampleCommand = (False, None)
   \<and> getStringFlag ''wait'' exampleCommand = ('''', None)
   \<and> NewCommandHelper exampleApi (\<lambda>f. Inr examplePrinter) exampleCommand =
       Inr \<lparr>dryRun = False, output = False, wait = False,
            outWriter = Stream 1, errWriter = Stream 2,
            objPrinter = None, strBuilder = '''',
            typeToGVK = getTypeToGVKLookup exampleApi\<rparr>"
proof -
  have unset: "notSet exampleCommand ''dry-run''" "notSet exampleCommand ''output''"
    "notSet exampleCommand ''wait''"
    by (simp_all add: notSet_def exampleCommand_def)
  have flags: "Flags exampleCommand ''dry-run'' = None"
    "Flags exampleCommand ''wait''
       = Some \<lparr>Changed = False, GetBool = (True, None),
                GetString = ('''', Some (External ''not a string''))\<rparr>"
    "OutOrStdout exampleCommand = Stream 1" "ErrOrStderr exampleCommand = Stream 2"
    by (simp_all add: exampleCommand_def)
  from unset flags show ?thesis
    using flags_resolve_to_zero [where cmd = exampleCommand and name = "''dry-run''"
        and api = exampleApi and np = "\<lambda>f. Inr examplePrinter"
        and ch = narrativeHelper]
      flags_resolve_to_zero [where cmd = exampleCommand and name = "''wait''"
        and api = exampleApi and np = "\<lambda>f. Inr examplePrinter"
        and ch = narrativeHelper]
    by simp
qed

section \<open>Routing of text\<close>

text \<open>
  C3. For every format and argument list, \<open>PrintResult\<close> and \<open>PrintStatus\<close> hand their
  stream the formatted text followed by \<open>" (dry run)"\<close> and a newline when dry-run is on, and
  the formatted text followed by the newline alone when it is off; the suffix is there if
  and only if dry-run is on.
\<close>

theorem dry_run_suffix:
  "PrintResult Sprintf ch format args \<sigma> =
     Write (OutOrDiscardWriter ch)
       (Sprintf format args @ (if dryRun ch then '' (dry run)'' else '''') @ newline) \<sigma>
   \<and> PrintStatus Sprintf ch format args \<sigma> =
     Write (OutOrErrWriter ch)
       (Sprintf format args @ (if dryRun ch then '' (dry run)'' else '''') @ newline) \<sigma>
   \<and> (last (log (snd (PrintResult Sprintf ch format args \<sigma>))) =
        EvWrite (OutOrDiscardWriter ch) (Sprintf format args @ '' (dry run)'' @ newline))
       = dryRun ch
   \<and> (last (log (snd (PrintResult Sprintf ch format args \<sigma>))) =
        EvWrite (OutOrDiscardWriter ch) (Sprintf format args @ newline))
       = (\<not> dryRun ch)
   \<and> (last (log (snd (PrintStatus Sprintf ch format args \<sigma>))) =
        EvWrite (OutOrErrWriter ch) (Sprintf format args @ '' (dry run)'' @ newline))
       = dryRun ch
   \<and> (last (log (snd (PrintStatus Sprintf ch format args \<sigma>))) =
        EvWrite (OutOrErrWriter ch) (Sprintf format args @ newline))
       = (\<not> dryRun ch)"
  by (simp add: PrintResult_def PrintStatus_def printDryRun_eq Write_log newline_def)

theorem dry_run_suffix_witness:
  "PrintResult (\<lambda>f a. f @ concat a) narrativeHelper ''created '' [''my-image''] exampleWorld
     = (None, \<lparr>content = (\<lambda>n. if n = 1 then ''created my-image (dry run)'' @ newline else ''''),
               broken = (\<lambda>n. None),
               log = [EvWrite (Stream 1) (''created my-image (dry run)'' @ newline)]\<rparr>)
   \<and> log (snd (PrintStatus (\<lambda>f a. f @ concat a) outputHelper ''created '' [''my-image'']
         exampleWorld))
     = [EvWrite (Stream 2) (''created my-image'' @ newline)]"
  using dry_run_suffix [where Sprintf = "\<lambda>f a. f @ concat a" and ch = narrativeHelper
      and format = "''created ''" and args = "[''my-image'']" and \<sigma> = exampleWorld]
    dry_run_suffix [where Sprintf = "\<lambda>f a. f @ concat a" and ch = outputHelper
      and format = "''created ''" and args = "[''my-image'']" and \<sigma> = exampleWorld]
  by (auto simp add: narrativeHelper_def outputHelper_def exampleWorld_def Write_def
      logEvent_def OutOrDiscardWriter_def OutOrErrWriter_def newline_def)

text \<open>
  C7. In output mode \<open>OutOrErrWriter\<close>, where \<open>PrintStatus\<close> and \<open>Printlnf\<close> write, is the
  error stream, and \<open>OutOrDiscardWriter\<close>, where \<open>PrintResult\<close> writes, is the discarding
  writer: the write succeeds and no stream changes. Outside output mode both are the
  output stream.
\<close>

theorem stream_routing:
  "OutOrErrWriter ch = (if output ch then errWriter ch else outWriter ch)
   \<and> OutOrDiscardWriter ch = (if output ch then Discard else outWriter ch)
   \<and> (\<exists>line. log (snd (PrintStatus Sprintf ch format args \<sigma>)) =
         log \<sigma> @ [EvWrite (if output ch then errWriter ch else outWriter ch) line])
   \<and> (\<exists>line. log (snd (Printlnf Sprintf ch format args \<sigma>)) =
         log \<sigma> @ [EvWrite (if output ch then errWriter ch else outWriter ch) line])
   \<and> (\<exists>line. log (snd (PrintResult Sprintf ch format args \<sigma>)) =
         log \<sigma> @ [EvWrite (if output ch then Discard else outWriter ch) line])
   \<and> Write Discard s \<sigma> = (None, \<sigma>\<lparr>log := log \<sigma> @ [EvWrite Discard s]\<rparr>)
   \<and> (output ch \<longrightarrow> fst (PrintResult Sprintf ch format args \<sigma>) = None
         \<and> content (snd (PrintResult Sprintf ch format args \<sigma>)) = content \<sigma>)"
  by (simp add: PrintResult_def PrintStatus_def Printlnf_def printDryRun_eq Write_log
      OutOrErrWriter_def OutOrDiscardWriter_def Write_Discard)

theorem stream_routing_witness:
  "output outputHelper
   \<and> OutOrErrWriter outputHelper = Stream 2
   \<and> OutOrDiscardWriter outputHelper = Discard
   \<and> OutOrErrWriter narrativeHelper = Stream 1
   \<and> OutOrDiscardWriter narrativeHelper = Stream 1
   \<and> fst (PrintResult (\<lambda>f a. f @ concat a) outputHelper ''created '' [''my-image''] brokenWorld)
       = None
   \<and> content (snd (PrintResult (\<lambda>f a. f @ concat a) outputHelper ''created '' [''my-image'']
        brokenWorld)) = content brokenWorld"
  using stream_routing [where ch = outputHelper and Sprintf = "\<lambda>f a. f @ concat a"
      and format = "''created ''" and args = "[''my-image'']" and \<sigma> = brokenWorld
      and s = "''''"]
    stream_routing [where ch = narrativeHelper and Sprintf = "\<lambda>f a. f @ concat a"
      and format = "''created ''" and args = "[''my-image'']" and \<sigma> = brokenWorld
      and s = "''''"]
  by (simp add: narrativeHelper_def outputHelper_def)

section \<open>Printing objects\<close>

text \<open>
  C5. In output mode, an object whose version or kind is empty (an empty identity among
  them) and whose runtime type the registry does not hold makes \<open>PrintObj\<close> return the
  unknown-type error. The printer is not called, nothing is written to any stream, and
  the object is as it was; the only event is the lookup.
\<close>

theorem unknown_type_error:
  assumes "output ch"
    and "Version (gvk ob) = '''' \<or> Kind (gvk ob) = ''''"
    and "typeToGVK ch (typeOf ob) = None"
  shows "PrintObj ch ob \<sigma> =
           (Return (Some (UnknownType (typeOf ob))), ob,
            \<sigma>\<lparr>log := log \<sigma> @ [EvLookup (typeOf ob)]\<rparr>)"
  using assms by (auto simp add: PrintObj_def logEvent_def)

theorem unknown_type_error_witness:
  "output outputHelper
   \<and> gvk barePod = \<lparr>Group = '''', Version = '''', Kind = ''''\<rparr>
   \<and> typeToGVK outputHelper (typeOf barePod) = None
   \<and> PrintObj outputHelper barePod exampleWorld =
       (Return (Some (UnknownType (OtherType ''*v1.Pod''))), barePod,
        \<lparr>content = (\<lambda>n. ''''), broken = (\<lambda>n. None), log = [EvLookup (OtherType ''*v1.Pod'')]\<rparr>)"
  using unknown_type_error [where ch = outputHelper and ob = barePod and \<sigma> = exampleWorld]
  by (simp add: outputHelper_def barePod_def exampleWorld_def getTypeToGVKLookup_def
      exampleApi_def WithKind_def Let_def)

text \<open>
  With output mode on and the version and kind of the object both set, \<open>PrintObj\<close> still
  calls \<open>SetGroupVersionKind\<close> once, after printing, with the identity it read on entry.
\<close>

theorem identity_written_back:
  "Group (gvk fullImage) \<noteq> '''' \<and> Version (gvk fullImage) \<noteq> '''' \<and> Kind (gvk fullImage) \<noteq> ''''
   \<and> log (snd (snd (PrintObj outputHelper fullImage exampleWorld))) =
       [EvPrintObject fullImage (Stream 1), EvWrite (Stream 1) (''kind: Image'' @ newline),
        EvSetGVK (gvk fullImage)]"
  by (simp add: outputHelper_def fullImage_def exampleWorld_def PrintObj_def Let_def
      printAndRestore_def PrintObject_def Write_def logEvent_def examplePrinter_def)

text \<open>
  C4. For a helper that holds a printer whenever output mode is on (as every helper that
  \<open>NewCommandHelper\<close> returns does), \<open>PrintObj\<close> returns, and the object after the call is
  the object before it, identity included. When version and kind are already set, no
  registry lookup is made and the identity never changes value: in output mode the object
  is printed as it is and the identity is then written exactly once, as the last action,
  with the identity read on entry; outside output mode the call returns at once and writes
  nothing. When the identity comes from the registry, it is set before printing, the
  printer sees it, and the last action writes the original identity back. The result of
  the call is given on every path: outside output mode, printed as it is, printed with the
  identity of the registry, and type unknown.
\<close>

theorem identity_round_trip:
  assumes "output ch \<longrightarrow> objPrinter ch \<noteq> None"
  shows "(\<exists>err. fst (PrintObj ch ob \<sigma>) = Return err)
       \<and> fst (snd (PrintObj ch ob \<sigma>)) = ob
       \<and> gvk (fst (snd (PrintObj ch ob \<sigma>))) = gvk ob
       \<and> log (snd (snd (PrintObj ch ob \<sigma>))) = log \<sigma> @ PrintObj_events ch ob
       \<and> (Version (gvk ob) \<noteq> '''' \<and> Kind (gvk ob) \<noteq> '''' \<longrightarrow>
            (\<forall>t. EvLookup t \<notin> set (PrintObj_events ch ob))
          \<and> (\<forall>g. EvSetGVK g \<in> set (PrintObj_events ch ob) \<longrightarrow> g = gvk ob))
       \<and> (\<forall>n p. output ch \<and> (Version (gvk ob) = '''' \<or> Kind (gvk ob) = '''')
              \<and> typeToGVK ch (typeOf ob) = Some n \<and> objPrinter ch = Some p \<longrightarrow>
            PrintObj_events ch ob =
              [EvLookup (typeOf ob), EvSetGVK n, EvPrintObject (ob\<lparr>gvk := n\<rparr>) (outWriter ch)]
              @ (case p (ob\<lparr>gvk := n\<rparr>) of Inl e \<Rightarrow> [] | Inr s \<Rightarrow> [EvWrite (outWriter ch) s])
              @ [EvSetGVK (gvk ob)]
          \<and> PrintObj ch ob \<sigma> =
              (Return (fst (PrintObject p (ob\<lparr>gvk := n\<rparr>) (outWriter ch)
                         (logEvent (EvSetGVK n) (logEvent (EvLookup (typeOf ob)) \<sigma>)))),
               ob,
               logEvent (EvSetGVK (gvk ob))
                 (snd (PrintObject p (ob\<lparr>gvk := n\<rparr>) (outWriter ch)
                         (logEvent (EvSetGVK n) (logEvent (EvLookup (typeOf ob)) \<sigma>))))))
       \<and> (\<forall>p. output ch \<and> Version (gvk ob) \<noteq> '''' \<and> Kind (gvk ob) \<noteq> ''''
              \<and> objPrinter ch = Some p \<longrightarrow>
            PrintObj ch ob \<sigma> =
              (Return (fst (PrintObject p ob (outWriter ch) \<sigma>)), ob,
               logEvent (EvSetGVK (gvk ob)) (snd (PrintObject p ob (outWriter ch) \<sigma>)))
          \<and> PrintObj_events ch ob =
              EvPrintObject ob (outWriter ch)
                # (case p ob of Inl e \<Rightarrow> [] | Inr s \<Rightarrow> [EvWrite (outWriter ch) s])
                @ [EvSetGVK (gvk ob)]
          \<and> filter isSetGVK (PrintObj_events ch ob) = [EvSetGVK (gvk ob)])
       \<and> (\<not> output ch \<longrightarrow>
            PrintObj ch ob \<sigma> = (Return None, ob, \<sigma>) \<and> PrintObj_events ch ob = [])
       \<and> (output ch \<and> (Version (gvk ob) = '''' \<or> Kind (gvk ob) = '''')
              \<and> typeToGVK ch (typeOf ob) = None \<longrightarrow>
            PrintObj ch ob \<sigma> =
              (Return (Some (UnknownType (typeOf ob))), ob, logEvent (EvLookup (typeOf ob)) \<sigma>))"
proof -
  have e: "Version (gvk ob) \<noteq> '''' \<and> Kind (gvk ob) \<noteq> '''' \<longrightarrow>
            (\<forall>t. EvLookup t \<notin> set (PrintObj_events ch ob))
          \<and> (\<forall>g. EvSetGVK g \<in> set (PrintObj_events ch ob) \<longrightarrow> g = gvk ob)"
    by (auto simp add: PrintObj_events_def no_lookup_in_tail dest: set_gvk_in_tail)
  have f: "\<forall>n p. output ch \<and> (Version (gvk ob) = '''' \<or> Kind (gvk ob) = '''')
              \<and> typeToGVK ch (typeOf ob) = Some n \<and> objPrinter ch = Some p \<longrightarrow>
            PrintObj_events ch ob =
              [EvLookup (typeOf ob), EvSetGVK n, EvPrintObject (ob\<lparr>gvk := n\<rparr>) (outWriter ch)]
              @ (case p (ob\<lparr>gvk := n\<rparr>) of Inl e \<Rightarrow> [] | Inr s \<Rightarrow> [EvWrite (outWriter ch) s])
              @ [EvSetGVK (gvk ob)]
          \<and> PrintObj ch ob \<sigma> =
              (Return (fst (PrintObject p (ob\<lparr>gvk := n\<rparr>) (outWriter ch)
                         (logEvent (EvSetGVK n) (logEvent (EvLookup (typeOf ob)) \<sigma>)))),
               ob,
               logEvent (EvSetGVK (gvk ob))
                 (snd (PrintObject p (ob\<lparr>gvk := n\<rparr>) (outWriter ch)
                         (logEvent (EvSetGVK n) (logEvent (EvLookup (typeOf ob)) \<sigma>)))))"
    using events_stamped [of ch ob] PrintObj_stamped [of ch ob] by blast
  have g: "\<forall>p. output ch \<and> Version (gvk ob) \<noteq> '''' \<and> Kind (gvk ob) \<noteq> ''''
              \<and> objPrinter ch = Some p \<longrightarrow>
            PrintObj ch ob \<sigma> =
              (Return (fst (PrintObject p ob (outWriter ch) \<sigma>)), ob,
               logEvent (EvSetGVK (gvk ob)) (snd (PrintObject p ob (outWriter ch) \<sigma>)))
          \<and> PrintObj_events ch ob =
              EvPrintObject ob (outWriter ch)
                # (case p ob of Inl e \<Rightarrow> [] | Inr s \<Rightarrow> [EvWrite (outWriter ch) s])
                @ [EvSetGVK (gvk ob)]
          \<and> filter isSetGVK (PrintObj_events ch ob) = [EvSetGVK (gvk ob)]"
    using events_as_is [of ch ob] PrintObj_as_is [of ch ob] events_as_is_writes [of ch ob]
    by blast
  have h: "\<not> output ch \<longrightarrow>
            PrintObj ch ob \<sigma> = (Return None, ob, \<sigma>) \<and> PrintObj_events ch ob = []"
    by (simp add: PrintObj_not_output events_not_output)
  have i: "output ch \<and> (Version (gvk ob) = '''' \<or> Kind (gvk ob) = '''')
              \<and> typeToGVK ch (typeOf ob) = None \<longrightarrow>
            PrintObj ch ob \<sigma> =
              (Return (Some (UnknownType (typeOf ob))), ob, logEvent (EvLookup (typeOf ob)) \<sigma>)"
    using PrintObj_unknown [of ch ob] by blast
  have a: "\<exists>err. fst (PrintObj ch ob \<sigma>) = Return err"
    by (rule PrintObj_returns [OF assms])
  have b: "fst (snd (PrintObj ch ob \<sigma>)) = ob"
    by (rule PrintObj_object [OF assms])
  from b have c: "gvk (fst (snd (PrintObj ch ob \<sigma>))) = gvk ob" by simp
  have d: "log (snd (snd (PrintObj ch ob \<sigma>))) = log \<sigma> @ PrintObj_events ch ob"
    by (rule PrintObj_log)
  from a b c d e f g h i show ?thesis by (intro conjI)
qed

theorem identity_round_trip_witness:
  "output outputHelper \<and> objPrinter outputHelper = Some examplePrinter
   \<and> fst (PrintObj outputHelper bareImage exampleWorld) = Return None
   \<and> fst (snd (PrintObj outputHelper bareImage exampleWorld)) = bareImage
   \<and> log (snd (snd (PrintObj outputHelper bareImage exampleWorld))) =
       [EvLookup ImagePtr,
        EvSetGVK \<lparr>Group = ''build.pivotal.io'', Version = ''v1alpha1'', Kind = ''Image''\<rparr>,
        EvPrintObject fullImage (Stream 1),
        EvWrite (Stream 1) (''kind: Image'' @ newline),
        EvSetGVK \<lparr>Group = '''', Version = '''', Kind = ''''\<rparr>]
   \<and> Version (gvk fullImage) = ''v1alpha1'' \<and> Kind (gvk fullImage) = ''Image''
   \<and> filter isSetGVK (PrintObj_events outputHelper fullImage) = [EvSetGVK (gvk fullImage)]
   \<and> PrintObj_events outputHelper fullImage =
       [EvPrintObject fullImage (Stream 1), EvWrite (Stream 1) (''kind: Image'' @ newline),
        EvSetGVK (gvk fullImage)]
   \<and> PrintObj narrativeHelper fullImage exampleWorld = (Return None, fullImage, exampleWorld)"
proof -
  have wf: "output outputHelper \<longrightarrow> objPrinter outputHelper \<noteq> None"
    by (simp add: outputHelper_def)
  have wf2: "output narrativeHelper \<longrightarrow> objPrinter narrativeHelper \<noteq> None"
    by (simp add: narrativeHelper_def)
  have off: "\<not> output narrativeHelper"
    by (simp add: narrativeHelper_def)
  have full: "Version (gvk fullImage) = ''v1alpha1''" "Kind (gvk fullImage) = ''Image''"
    by (simp_all add: fullImage_def)
  have set_: "output outputHelper \<and> Version (gvk fullImage) \<noteq> '''' \<and> Kind (gvk fullImage) \<noteq> ''''
      \<and> objPrinter outputHelper = Some examplePrinter"
    by (simp add: outputHelper_def fullImage_def)
  have "\<not> output narrativeHelper \<longrightarrow>
      PrintObj narrativeHelper fullImage exampleWorld = (Return None, fullImage, exampleWorld)
      \<and> PrintObj_events narrativeHelper fullImage = []"
    using identity_round_trip [OF wf2, where ob = fullImage and \<sigma> = exampleWorld]
    by (rule conjunct2 [THEN conjunct2, THEN conjunct2, THEN conjunct2, THEN conjunct2,
          THEN conjunct2, THEN conjunct2, THEN conjunct1])
  with off have quiet:
    "PrintObj narrativeHelper fullImage exampleWorld = (Return None, fullImage, exampleWorld)"
    by blast
  have "\<forall>p. output outputHelper \<and> Version (gvk fullImage) \<noteq> '''' \<and> Kind (gvk fullImage) \<noteq> ''''
              \<and> objPrinter outputHelper = Some p \<longrightarrow>
            PrintObj outputHelper fullImage exampleWorld =
              (Return (fst (PrintObject p fullImage (outWriter outputHelper) exampleWorld)),
               fullImage,
               logEvent (EvSetGVK (gvk fullImage))
                 (snd (PrintObject p fullImage (outWriter outputHelper) exampleWorld)))
          \<and> PrintObj_events outputHelper fullImage =
              EvPrintObject fullImage (outWriter outputHelper)
                # (case p fullImage of Inl e \<Rightarrow> []
                   | Inr s \<Rightarrow> [EvWrite (outWriter outputHelper) s])
                @ [EvSetGVK (gvk fullImage)]
          \<and> filter isSetGVK (PrintObj_events outputHelper fullImage) = [EvSetGVK (gvk fullImage)]"
    using identity_round_trip [OF wf, where ob = fullImage and \<sigma> = exampleWorld]
    by (rule conjunct2 [THEN conjunct2, THEN conjunct2, THEN conjunct2, THEN conjunct2,
          THEN conjunct2, THEN conjunct1])
  with set_ have once:
    "PrintObj_events outputHelper fullImage =
        EvPrintObject fullImage (outWriter outputHelper)
          # (case examplePrinter fullImage of Inl e \<Rightarrow> []
             | Inr s \<Rightarrow> [EvWrite (outWriter outputHelper) s])
          @ [EvSetGVK (gvk fullImage)]
     \<and> filter isSetGVK (PrintObj_events outputHelper fullImage) = [EvSetGVK (gvk fullImage)]"
    by blast
  have shape: "EvPrintObject fullImage (outWriter outputHelper)
          # (case examplePrinter fullImage of Inl e \<Rightarrow> []
             | Inr s \<Rightarrow> [EvWrite (outWriter outputHelper) s])
          @ [EvSetGVK (gvk fullImage)]
      = [EvPrintObject fullImage (Stream 1), EvWrite (Stream 1) (''kind: Image'' @ newline),
         EvSetGVK (gvk fullImage)]"
    by (simp add: outputHelper_def fullImage_def examplePrinter_def)
  from once shape have asis:
    "filter isSetGVK (PrintObj_events outputHelper fullImage) = [EvSetGVK (gvk fullImage)]"
    "PrintObj_events outputHelper fullImage =
       [EvPrintObject fullImage (Stream 1), EvWrite (Stream 1) (''kind: Image'' @ newline),
        EvSetGVK (gvk fullImage)]"
    by simp_all
  note rt = identity_round_trip [OF wf, where ob = bareImage and \<sigma> = exampleWorld]
  have ret: "fst (PrintObj outputHelper bareImage exampleWorld) = Return None"
    by (simp add: outputHelper_def bareImage_def exampleWorld_def exampleApi_def
        PrintObj_def printAndRestore_def PrintObject_def Write_def logEvent_def
        examplePrinter_def getTypeToGVKLookup_def WithKind_def Let_def)
  have evs: "PrintObj_events outputHelper bareImage =
       [EvLookup ImagePtr,
        EvSetGVK \<lparr>Group = ''build.pivotal.io'', Version = ''v1alpha1'', Kind = ''Image''\<rparr>,
        EvPrintObject fullImage (Stream 1),
        EvWrite (Stream 1) (''kind: Image'' @ newline),
        EvSetGVK \<lparr>Group = '''', Version = '''', Kind = ''''\<rparr>]"
    by (simp add: outputHelper_def bareImage_def fullImage_def exampleApi_def
        PrintObj_events_def printAndRestore_events_def examplePrinter_def
        getTypeToGVKLookup_def WithKind_def Let_def)
  have same: "fst (snd (PrintObj outputHelper bareImage exampleWorld)) = bareImage"
    using rt by (rule conjunct2 [THEN conjunct1])
  have "log (snd (snd (PrintObj outputHelper bareImage exampleWorld))) =
      log exampleWorld @ PrintObj_events outputHelper bareImage"
    using rt by (rule conjunct2 [THEN conjunct2, THEN conjunct2, THEN conjunct1])
  with evs have lg: "log (snd (snd (PrintObj outputHelper bareImage exampleWorld))) =
       [EvLookup ImagePtr,
        EvSetGVK \<lparr>Group = ''build.pivotal.io'', Version = ''v1alpha1'', Kind = ''Image''\<rparr>,
        EvPrintObject fullImage (Stream 1),
        EvWrite (Stream 1) (''kind: Image'' @ newline),
        EvSetGVK \<lparr>Group = '''', Version = '''', Kind = ''''\<rparr>]"
    by (simp add: exampleWorld_def)
  have on: "output outputHelper" "objPrinter outputHelper = Some examplePrinter"
    by (simp_all add: outputHelper_def)
  from on ret same lg full asis quiet show ?thesis by (intro conjI)

qed




section \<open>The patch command\<close>

text \<open>
  C6. The copy that the command hands to \<open>CreatePatch\<close> is a new object, and no object
  that existed before, the one read from the cluster among them, is changed. The copy
  equals the object read except in \<open>Spec.Stack.Name\<close>, \<open>Spec.Store.Name\<close> and \<open>Spec.Order\<close>;
  each of these differs only when its flag is not empty, and then holds the flag's value
  (for the order, what \<open>ReadOrder\<close> returns). Type, metadata, status and the other fields of
  the spec are those of the object read.
\<close>

theorem patch_frame:
  assumes "ccb < length h"
    and "patchedCopy readOrder stack store order ccb h = (err, patchedCcb, h')"
  shows "patchedCcb = length h \<and> patchedCcb \<noteq> ccb \<and> length h' = Suc (length h)
       \<and> (\<forall>q < length h. h' ! q = h ! q)
       \<and> h' ! ccb = h ! ccb
       \<and> h' ! patchedCcb =
           (h ! ccb)\<lparr>Spec := (Spec (h ! ccb))
             \<lparr>Stack := (Stack (Spec (h ! ccb)))\<lparr>Name := Name (Stack (Spec (h' ! patchedCcb)))\<rparr>,
              Store := (Store (Spec (h ! ccb)))\<lparr>Name := Name (Store (Spec (h' ! patchedCcb)))\<rparr>,
              Order := Order (Spec (h' ! patchedCcb))\<rparr>\<rparr>
       \<and> Name (Stack (Spec (h' ! patchedCcb)))
           = (if stack \<noteq> '''' then stack else Name (Stack (Spec (h ! ccb))))
       \<and> Name (Store (Spec (h' ! patchedCcb)))
           = (if store \<noteq> '''' then store else Name (Store (Spec (h ! ccb))))
       \<and> (order = '''' \<longrightarrow> Order (Spec (h' ! patchedCcb)) = Order (Spec (h ! ccb)))
       \<and> (\<forall>orderEntries. order \<noteq> '''' \<and> readOrder order = Inr orderEntries \<longrightarrow>
            Order (Spec (h' ! patchedCcb)) = orderEntries)
       \<and> TypeMeta (h' ! patchedCcb) = TypeMeta (h ! ccb)
       \<and> ObjectMeta_Name (h' ! patchedCcb) = ObjectMeta_Name (h ! ccb)
       \<and> ObjectMeta_rest (h' ! patchedCcb) = ObjectMeta_rest (h ! ccb)
       \<and> Status (h' ! patchedCcb) = Status (h ! ccb)
       \<and> Tag (Spec (h' ! patchedCcb)) = Tag (Spec (h ! ccb))
       \<and> specRest (Spec (h' ! patchedCcb)) = specRest (Spec (h ! ccb))
       \<and> refRest (Stack (Spec (h' ! patchedCcb))) = refRest (Stack (Spec (h ! ccb)))
       \<and> refRest (Store (Spec (h' ! patchedCcb))) = refRest (Store (Spec (h ! ccb)))
       \<and> (err = None) = (order = '''' \<or> (\<exists>orderEntries. readOrder order = Inr orderEntries))"
proof -
  from assms(2) have p: "patchedCcb = length h"
    and h': "h' = h @ [patchedValue readOrder stack store order (h ! ccb)]"
    and e: "err = (if order \<noteq> '''' then (case readOrder order of Inl e \<Rightarrow> Some e | Inr oe \<Rightarrow> None)
                   else None)"
    by (simp_all add: patchedCopy_eq)
  from assms(1) p h' have old: "\<forall>q < length h. h' ! q = h ! q"
    by (simp add: nth_append)
  from p h' have new: "h' ! patchedCcb = patchedValue readOrder stack store order (h ! ccb)"
    by simp
  from e have ok: "(err = None) = (order = '''' \<or> (\<exists>orderEntries. readOrder order = Inr orderEntries))"
    by (auto split: sum.splits)
  from assms(1) p h' old ok show ?thesis
    unfolding new by (simp add: patchedValue_def)
qed

theorem patch_frame_witness:
  "(0::nat) < length [exampleBuilder]
   \<and> patchedCopy (ReadOrder exampleEnv) ''new-stack'' '''' ''order.yaml'' 0 [exampleBuilder] =
       (None, 1,
        [exampleBuilder,
         exampleBuilder\<lparr>Spec := (Spec exampleBuilder)
           \<lparr>Stack := \<lparr>Name = ''new-stack'', refRest = ''ClusterStack''\<rparr>, Order := exampleOrder\<rparr>\<rparr>])
   \<and> Name (Store (Spec exampleBuilder)) = ''old-store''
   \<and> Status exampleBuilder = ''ready''"
  using patch_frame [where ccb = 0 and h = "[exampleBuilder]" and readOrder = "ReadOrder exampleEnv"
      and stack = "''new-stack''" and store = "''''" and order = "''order.yaml''"
      and err = None and patchedCcb = 1
      and h' = "[exampleBuilder,
         exampleBuilder\<lparr>Spec := (Spec exampleBuilder)
           \<lparr>Stack := \<lparr>Name = ''new-stack'', refRest = ''ClusterStack''\<rparr>, Order := exampleOrder\<rparr>\<rparr>]"]
  by (simp add: patchedCopy_def DeepCopy_def set_Spec_Stack_Name_def set_Spec_Order_def
      exampleEnv_def exampleBuilder_def)

text \<open>
  C10. With the stack, store and order flags all empty, the copy is equal to the object
  read in every field, and the heap after the command holds the object read and that
  equal copy. Whatever the other flags are, an empty flag leaves its own field of the copy
  as it is in the object read, so an empty value never clears a field.
\<close>

theorem empty_flags_change_nothing:
  "patchedCopy readOrder '''' '''' '''' ccb h = (None, length h, h @ [h ! ccb])
   \<and> (h @ [h ! ccb]) ! length h = h ! ccb
   \<and> (ccb < length h \<longrightarrow> (h @ [h ! ccb]) ! ccb = h ! ccb)
   \<and> (GetClientSet env = None \<and> Get env name = Inr fetched \<longrightarrow>
        fst (snd (RunE env '''' '''' '''' cmd [name] h \<sigma>)) = h @ [fetched, fetched])
   \<and> (stack = '''' \<longrightarrow>
        Name (Stack (Spec (snd (snd (patchedCopy readOrder stack store order ccb h)) ! length h)))
          = Name (Stack (Spec (h ! ccb))))
   \<and> (store = '''' \<longrightarrow>
        Name (Store (Spec (snd (snd (patchedCopy readOrder stack store order ccb h)) ! length h)))
          = Name (Store (Spec (h ! ccb))))
   \<and> (order = '''' \<longrightarrow>
        Order (Spec (snd (snd (patchedCopy readOrder stack store order ccb h)) ! length h))
          = Order (Spec (h ! ccb)))"
proof -
  have all_empty: "patchedCopy readOrder '''' '''' '''' ccb h = (None, length h, h @ [h ! ccb])"
    by (simp add: patchedCopy_def DeepCopy_def)
  have run: "GetClientSet env = None \<and> Get env name = Inr fetched \<longrightarrow>
        fst (snd (RunE env '''' '''' '''' cmd [name] h \<sigma>)) = h @ [fetched, fetched]"
    by (auto simp add: patchedCopy_def DeepCopy_def RunE_def Let_def
        split: sum.split option.split prod.split)
  have each: "snd (snd (patchedCopy readOrder stack store order ccb h)) ! length h
      = patchedValue readOrder stack store order (h ! ccb)"
    by (simp add: patchedCopy_eq)
  from all_empty run show ?thesis
    unfolding each by (simp add: patchedValue_def nth_append)
qed

theorem empty_flags_change_nothing_witness:
  "(0::nat) < length [exampleBuilder]
   \<and> GetClientSet exampleEnv = None \<and> Get exampleEnv ''my-builder'' = Inr exampleBuilder
   \<and> patchedCopy (ReadOrder exampleEnv) '''' '''' '''' 0 [exampleBuilder]
       = (None, 1, [exampleBuilder, exampleBuilder])
   \<and> fst (snd (RunE exampleEnv '''' '''' '''' exampleCommand [''my-builder''] [] exampleWorld))
       = [exampleBuilder, exampleBuilder]"
  using empty_flags_change_nothing [where ccb = 0 and h = "[exampleBuilder]"
      and readOrder = "ReadOrder exampleEnv"]
    empty_flags_change_nothing [where env = exampleEnv and name = "''my-builder''"
      and fetched = exampleBuilder and h = "[]" and cmd = exampleCommand and \<sigma> = exampleWorld]
  by (simp add: exampleEnv_def)

text \<open>
  When the output stream refuses the write, the command with an empty patch returns the
  error of the write, and the line is not on the stream.
\<close>

theorem nothing_to_patch_write_error:
  "CreatePatch exampleEnv exampleBuilder exampleBuilder = Inr ''''
   \<and> RunE exampleEnv '''' '''' '''' exampleCommand [''my-builder''] [] brokenWorld =
       (Some (External ''broken pipe''), [exampleBuilder, exampleBuilder],
        brokenWorld\<lparr>log := [EvGet ''my-builder'',
                             EvWrite (Stream 1) (''nothing to patch'' @ newline)]\<rparr>)"
  by (simp add: exampleEnv_def exampleCommand_def brokenWorld_def RunE_def patchedCopy_def
      DeepCopy_def Write_def logEvent_def Let_def)

text \<open>
  C2. When the patch that \<open>CreatePatch\<close> computes between the object read and its copy has
  length zero, the command makes no remote \<open>Patch\<close> call: after the \<open>Get\<close> its only action
  is one write of the line \<open>nothing to patch\<close> to the output stream of the command. It
  returns what that write returns: no error when the stream accepts the write, and then
  the line is on the stream; the error of the stream when it refuses the write, and then
  no stream has changed. The whole result of the command is given in each case.

\<close>

theorem nothing_to_patch:
  assumes "GetClientSet env = None"
    and "Get env name = Inr fetched"
    and "patchedCopy (ReadOrder env) stack store order (length h) (h @ [fetched])
           = (None, patchedCcb, hp)"
    and "CreatePatch env (hp ! length h) (hp ! patchedCcb) = Inr patch"
    and "length patch = 0"
  shows "log (snd (snd (RunE env stack store order cmd [name] h \<sigma>))) =
           log \<sigma> @ [EvGet name, EvWrite (OutOrStdout cmd) (''nothing to patch'' @ newline)]
       \<and> (fst (RunE env stack store order cmd [name] h \<sigma>) = None)
            = (\<forall>n. OutOrStdout cmd = Stream n \<longrightarrow> broken \<sigma> n = None)
       \<and> (\<forall>n. OutOrStdout cmd = Stream n \<and> broken \<sigma> n = None \<longrightarrow>
            content (snd (snd (RunE env stack store order cmd [name] h \<sigma>))) n
              = content \<sigma> n @ ''nothing to patch'' @ newline)
       \<and> (\<forall>n t b. EvPatch n t b \<in> set (log (snd (snd (RunE env stack store order cmd [name] h \<sigma>))))
            \<longrightarrow> EvPatch n t b \<in> set (log \<sigma>))
       \<and> RunE env stack store order cmd [name] h \<sigma> =
           (fst (Write (OutOrStdout cmd) (''nothing to patch'' @ newline) (logEvent (EvGet name) \<sigma>)),
            hp,
            snd (Write (OutOrStdout cmd) (''nothing to patch'' @ newline) (logEvent (EvGet name) \<sigma>)))
       \<and> fst (RunE env stack store order cmd [name] h \<sigma>) =
           (case OutOrStdout cmd of Discard \<Rightarrow> None | Stream n \<Rightarrow> broken \<sigma> n)
       \<and> (\<forall>n e. OutOrStdout cmd = Stream n \<and> broken \<sigma> n = Some e \<longrightarrow>
            RunE env stack store order cmd [name] h \<sigma> =
              (Some e, hp,
               \<sigma>\<lparr>log := log \<sigma> @ [EvGet name,
                                  EvWrite (OutOrStdout cmd) (''nothing to patch'' @ newline)]\<rparr>))
       \<and> (\<forall>n. OutOrStdout cmd = Stream n \<and> broken \<sigma> n = None \<longrightarrow>
            RunE env stack store order cmd [name] h \<sigma> =
              (None, hp,
               \<sigma>\<lparr>log := log \<sigma> @ [EvGet name,
                                  EvWrite (OutOrStdout cmd) (''nothing to patch'' @ newline)],
                 content := (content \<sigma>)(n := content \<sigma> n @ ''nothing to patch'' @ newline)\<rparr>))
       \<and> (OutOrStdout cmd = Discard \<longrightarrow>
            RunE env stack store order cmd [name] h \<sigma> =
              (None, hp,
               \<sigma>\<lparr>log := log \<sigma> @ [EvGet name,
                                  EvWrite (OutOrStdout cmd) (''nothing to patch'' @ newline)]\<rparr>))"
proof -
  note run = RunE_nothing [OF assms, of cmd \<sigma>]
  have old: "log (snd (snd (RunE env stack store order cmd [name] h \<sigma>))) =
           log \<sigma> @ [EvGet name, EvWrite (OutOrStdout cmd) (''nothing to patch'' @ newline)]
       \<and> (fst (RunE env stack store order cmd [name] h \<sigma>) = None)
            = (\<forall>n. OutOrStdout cmd = Stream n \<longrightarrow> broken \<sigma> n = None)
       \<and> (\<forall>n. OutOrStdout cmd = Stream n \<and> broken \<sigma> n = None \<longrightarrow>
            content (snd (snd (RunE env stack store order cmd [name] h \<sigma>))) n
              = content \<sigma> n @ ''nothing to patch'' @ newline)
       \<and> (\<forall>n t b. EvPatch n t b \<in> set (log (snd (snd (RunE env stack store order cmd [name] h \<sigma>))))
            \<longrightarrow> EvPatch n t b \<in> set (log \<sigma>))"
    by (simp add: run Write_log Write_ok Write_content logEvent_simps)
  have err: "fst (RunE env stack store order cmd [name] h \<sigma>) =
           (case OutOrStdout cmd of Discard \<Rightarrow> None | Stream n \<Rightarrow> broken \<sigma> n)"
    by (simp add: run Write_def logEvent_def Let_def split: writer.split option.split)
  have refused: "\<forall>n e. OutOrStdout cmd = Stream n \<and> broken \<sigma> n = Some e \<longrightarrow>
            RunE env stack store order cmd [name] h \<sigma> =
              (Some e, hp,
               \<sigma>\<lparr>log := log \<sigma> @ [EvGet name,
                                  EvWrite (OutOrStdout cmd) (''nothing to patch'' @ newline)]\<rparr>)"
    by (simp add: run Write_def logEvent_def Let_def)
  have accepted: "\<forall>n. OutOrStdout cmd = Stream n \<and> broken \<sigma> n = None \<longrightarrow>
            RunE env stack store order cmd [name] h \<sigma> =
              (None, hp,
               \<sigma>\<lparr>log := log \<sigma> @ [EvGet name,
                                  EvWrite (OutOrStdout cmd) (''nothing to patch'' @ newline)],
                 content := (content \<sigma>)(n := content \<sigma> n @ ''nothing to patch'' @ newline)\<rparr>)"
    by (simp add: run Write_def logEvent_def Let_def)
  have discard: "OutOrStdout cmd = Discard \<longrightarrow>
            RunE env stack store order cmd [name] h \<sigma> =
              (None, hp,
               \<sigma>\<lparr>log := log \<sigma> @ [EvGet name,
                                  EvWrite (OutOrStdout cmd) (''nothing to patch'' @ newline)]\<rparr>)"
    by (simp add: run Write_def logEvent_def Let_def)
  from old run err refused accepted discard show ?thesis by (intro conjI) (elim conjE, assumption)+
qed

theorem nothing_to_patch_witness:
  "GetClientSet exampleEnv = None
   \<and> Get exampleEnv ''my-builder'' = Inr exampleBuilder
   \<and> patchedCopy (ReadOrder exampleEnv) '''' '''' '''' (length []) ([] @ [exampleBuilder])
       = (None, 1, [exampleBuilder, exampleBuilder])
   \<and> CreatePatch exampleEnv ([exampleBuilder, exampleBuilder] ! length [])
        ([exampleBuilder, exampleBuilder] ! 1) = Inr ''''
   \<and> fst (RunE exampleEnv '''' '''' '''' exampleCommand [''my-builder''] [] exampleWorld) = None
   \<and> log (snd (snd (RunE exampleEnv '''' '''' '''' exampleCommand [''my-builder''] []
        exampleWorld))) =
       [EvGet ''my-builder'', EvWrite (Stream 1) (''nothing to patch'' @ newline)]
   \<and> content (snd (snd (RunE exampleEnv '''' '''' '''' exampleCommand [''my-builder''] []
        exampleWorld))) 1 = ''nothing to patch'' @ newline
   \<and> broken brokenWorld 1 = Some (External ''broken pipe'')
   \<and> RunE exampleEnv '''' '''' '''' exampleCommand [''my-builder''] [] brokenWorld =
       (Some (External ''broken pipe''), [exampleBuilder, exampleBuilder],
        brokenWorld\<lparr>log := [EvGet ''my-builder'',
                             EvWrite (Stream 1) (''nothing to patch'' @ newline)]\<rparr>)"
proof -
  have bad: "OutOrStdout exampleCommand = Stream 1
      \<and> broken brokenWorld 1 = Some (External ''broken pipe'')"
    by (simp add: exampleCommand_def brokenWorld_def)
  have h1: "GetClientSet exampleEnv = None"
    by (simp add: exampleEnv_def)
  have h2: "Get exampleEnv ''my-builder'' = Inr exampleBuilder"
    by (simp add: exampleEnv_def)
  have h3: "patchedCopy (ReadOrder exampleEnv) '''' '''' '''' (length []) ([] @ [exampleBuilder])
       = (None, 1, [exampleBuilder, exampleBuilder])"
    by (simp add: patchedCopy_def DeepCopy_def)
  have h4: "CreatePatch exampleEnv ([exampleBuilder, exampleBuilder] ! length [])
        ([exampleBuilder, exampleBuilder] ! 1) = Inr ''''"
    by (simp add: exampleEnv_def)
  have h5: "length '''' = 0"
    by simp
  have out: "OutOrStdout exampleCommand = Stream 1 \<and> broken exampleWorld 1 = None"
    by (simp add: exampleCommand_def exampleWorld_def)
  note t = nothing_to_patch [where env = exampleEnv and name = "''my-builder''"
      and fetched = exampleBuilder and stack = "''''" and store = "''''" and order = "''''"
      and h = "[]" and patchedCcb = 1 and hp = "[exampleBuilder, exampleBuilder]"
      and patch = "''''" and cmd = exampleCommand and \<sigma> = exampleWorld,
      OF h1 h2 h3 h4 h5]
  have "\<forall>n. OutOrStdout exampleCommand = Stream n \<and> broken exampleWorld n = None \<longrightarrow>
      RunE exampleEnv '''' '''' '''' exampleCommand [''my-builder''] [] exampleWorld =
        (None, [exampleBuilder, exampleBuilder],
         exampleWorld\<lparr>log := log exampleWorld @ [EvGet ''my-builder'',
                           EvWrite (OutOrStdout exampleCommand) (''nothing to patch'' @ newline)],
           content := (content exampleWorld)
             (n := content exampleWorld n @ ''nothing to patch'' @ newline)\<rparr>)"
    using t
    by (rule conjunct2 [THEN conjunct2, THEN conjunct2, THEN conjunct2, THEN conjunct2,
          THEN conjunct2, THEN conjunct2, THEN conjunct1])
  with out have run:
    "RunE exampleEnv '''' '''' '''' exampleCommand [''my-builder''] [] exampleWorld =
        (None, [exampleBuilder, exampleBuilder],
         exampleWorld\<lparr>log := log exampleWorld @ [EvGet ''my-builder'',
                           EvWrite (OutOrStdout exampleCommand) (''nothing to patch'' @ newline)],
           content := (content exampleWorld)
             (1 := content exampleWorld 1 @ ''nothing to patch'' @ newline)\<rparr>)"
    by blast
  have r: "fst (RunE exampleEnv '''' '''' '''' exampleCommand [''my-builder''] [] exampleWorld)
        = None"
    "log (snd (snd (RunE exampleEnv '''' '''' '''' exampleCommand [''my-builder''] []
        exampleWorld))) =
       [EvGet ''my-builder'', EvWrite (Stream 1) (''nothing to patch'' @ newline)]"
    "content (snd (snd (RunE exampleEnv '''' '''' '''' exampleCommand [''my-builder''] []
        exampleWorld))) 1 = ''nothing to patch'' @ newline"
    unfolding run by (simp_all add: exampleWorld_def exampleCommand_def)
  have "\<forall>n e. OutOrStdout exampleCommand = Stream n \<and> broken brokenWorld n = Some e \<longrightarrow>
      RunE exampleEnv '''' '''' '''' exampleCommand [''my-builder''] [] brokenWorld =
        (Some e, [exampleBuilder, exampleBuilder],
         brokenWorld\<lparr>log := log brokenWorld @ [EvGet ''my-builder'',
                           EvWrite (OutOrStdout exampleCommand) (''nothing to patch'' @ newline)]\<rparr>)"
    using nothing_to_patch [where env = exampleEnv and name = "''my-builder''"
      and fetched = exampleBuilder and stack = "''''" and store = "''''" and order = "''''"
      and h = "[]" and patchedCcb = 1 and hp = "[exampleBuilder, exampleBuilder]"
      and patch = "''''" and cmd = exampleCommand and \<sigma> = brokenWorld,
      OF h1 h2 h3 h4 h5]
    by (rule conjunct2 [THEN conjunct2, THEN conjunct2, THEN conjunct2, THEN conjunct2,
          THEN conjunct2, THEN conjunct1])
  with bad have
    "RunE exampleEnv '''' '''' '''' exampleCommand [''my-builder''] [] brokenWorld =
        (Some (External ''broken pipe''), [exampleBuilder, exampleBuilder],
         brokenWorld\<lparr>log := log brokenWorld @ [EvGet ''my-builder'',
                           EvWrite (OutOrStdout exampleCommand) (''nothing to patch'' @ newline)]\<rparr>)"
    by blast
  then have refused:
    "RunE exampleEnv '''' '''' '''' exampleCommand [''my-builder''] [] brokenWorld =
       (Some (External ''broken pipe''), [exampleBuilder, exampleBuilder],
        brokenWorld\<lparr>log := [EvGet ''my-builder'',
                             EvWrite (Stream 1) (''nothing to patch'' @ newline)]\<rparr>)"
    by (simp add: brokenWorld_def exampleCommand_def)
  from bad have b1: "broken brokenWorld 1 = Some (External ''broken pipe'')"
    by (rule conjunct2)
  from h1 h2 h3 h4 r b1 refused show ?thesis by (intro conjI)

qed

end
